theory Spec2Isabelle
  imports Complex_Main "HOL-Library.Word"
begin

unbundle bit_operations_syntax

section \<open>Node.js buffers\<close>

text \<open>
  A \<^verbatim>\<open>Buffer\<close> is a list of bytes.  The accessors below are the ones the voice
  workers call; every \<^verbatim>\<open>RangeError\<close> that Node raises is a branch of the model.
\<close>

type_synonym byte = "8 word"
type_synonym bytes = "byte list"

datatype error =
    ERR_OUT_OF_RANGE
  | RtpTooShort
  | EncryptedTooShort
  | DecryptFailed
  | BadKeySize
  | BadNonceSize
  | OpusEncodeFailed
  | VoiceNotReady

text \<open>\<^verbatim>\<open>Buffer.alloc(n)\<close>: n zero bytes.\<close>

definition alloc :: "nat \<Rightarrow> bytes" where
  "alloc n = replicate n 0"

text \<open>
  \<^verbatim>\<open>buf.writeUInt16BE(value)\<close> and \<^verbatim>\<open>buf.writeUInt32BE(value)\<close>: the bytes written, most
  significant first.  Node throws \<^verbatim>\<open>ERR_OUT_OF_RANGE\<close> when the value does not fit.
\<close>

definition writeUInt16BE :: "nat \<Rightarrow> error + bytes" where
  "writeUInt16BE v =
     (if v \<le> 65535 then Inr [of_nat (v div 256), of_nat (v mod 256)]
      else Inl ERR_OUT_OF_RANGE)"

definition writeUInt32BE :: "nat \<Rightarrow> error + bytes" where
  "writeUInt32BE v =
     (if v \<le> 4294967295
      then Inr [of_nat (v div 16777216), of_nat (v div 65536 mod 256),
                of_nat (v div 256 mod 256), of_nat (v mod 256)]
      else Inl ERR_OUT_OF_RANGE)"

text \<open>\<^verbatim>\<open>buf.readUInt16BE(off)\<close> and \<^verbatim>\<open>buf.readUInt32BE(off)\<close>.\<close>

definition readUInt16BE :: "bytes \<Rightarrow> nat \<Rightarrow> error + nat" where
  "readUInt16BE buf off =
     (if off + 2 \<le> length buf
      then Inr (unat (buf ! off) * 256 + unat (buf ! (off + 1)))
      else Inl ERR_OUT_OF_RANGE)"

definition readUInt32BE :: "bytes \<Rightarrow> nat \<Rightarrow> error + nat" where
  "readUInt32BE buf off =
     (if off + 4 \<le> length buf
      then Inr (unat (buf ! off) * 16777216 + unat (buf ! (off + 1)) * 65536
                + unat (buf ! (off + 2)) * 256 + unat (buf ! (off + 3)))
      else Inl ERR_OUT_OF_RANGE)"

text \<open>
  \<^verbatim>\<open>buf.slice(start)\<close>, \<^verbatim>\<open>buf.slice(-n)\<close> and \<^verbatim>\<open>buf.slice(start, -n)\<close>.  A negative index
  counts from the end and is clamped at 0, which is what truncating subtraction does.
\<close>

definition slice_from :: "nat \<Rightarrow> bytes \<Rightarrow> bytes" where
  "slice_from start buf = drop start buf"

definition slice_last :: "nat \<Rightarrow> bytes \<Rightarrow> bytes" where
  "slice_last n buf = drop (length buf - n) buf"

definition slice_between :: "nat \<Rightarrow> nat \<Rightarrow> bytes \<Rightarrow> bytes" where
  "slice_between start n buf = take (length buf - n - start) (drop start buf)"

section \<open>audioDecodingWorker.ts: extractOpusFromRTP\<close>

text \<open>
  The \<^verbatim>\<open>for\<close> loop over the extension elements: \<open>n\<close> is the number of iterations
  left (\<^verbatim>\<open>rtpHLen - i\<close>).
\<close>

fun skipExtensions :: "bytes \<Rightarrow> nat \<Rightarrow> nat \<Rightarrow> nat" where
  "skipExtensions opusData 0 offset = offset"
| "skipExtensions opusData (Suc n) offset =
     (if offset < length opusData
      then skipExtensions opusData n
             (offset + (unat (opusData ! offset AND 0xF) + 1) * 4)
      else offset)"

text \<open>The \<^verbatim>\<open>while\<close> loop that skips zero bytes.\<close>

function skipPadding :: "bytes \<Rightarrow> nat \<Rightarrow> nat" where
  "skipPadding opusData offset =
     (if offset < length opusData \<and> opusData ! offset = 0
      then skipPadding opusData (Suc offset)
      else offset)"
  by pat_completeness auto
termination
  by (relation "measure (\<lambda>(opusData, offset). length opusData - offset)") auto

declare skipPadding.simps [simp del]

definition extractOpusFromRTP :: "bytes \<Rightarrow> bytes" where
  "extractOpusFromRTP opusData =
     (if length opusData = 0 then opusData
      else if length opusData > 4 \<and> opusData ! 0 = 0xBE \<and> opusData ! 1 = 0xDE
      then (let rtpHLen = unat (opusData ! 2) * 256 + unat (opusData ! 3);
                offset = skipExtensions opusData rtpHLen 4;
                offset = skipPadding opusData offset
            in slice_from offset opusData)
      else opusData)"

text \<open>
  Modelled from the spec: \<^verbatim>\<open>Append0xBEDEHeader\<close>, which is named by the round-trip property
  of the spec and has no counterpart in the sources.  It puts the one-byte-extension
  profile marker \<^verbatim>\<open>0xBEDE\<close>, the length of the extension area in 32-bit words (big
  endian) and the extension area itself in front of a payload.
\<close>

definition append0xBEDEHeader :: "bytes \<Rightarrow> bytes \<Rightarrow> bytes" where
  "append0xBEDEHeader ext P =
     [0xBE, 0xDE, of_nat (length ext div 4 div 256), of_nat (length ext div 4 mod 256)]
       @ ext @ P"

text \<open>
  An extension area made of whole 32-bit words, each one starting with an element header
  whose length nibble is 0 (a one-byte element and its padding, or a padding word).
\<close>

fun oneWordElements :: "bytes \<Rightarrow> bool" where
  "oneWordElements [] = True"
| "oneWordElements (b0 # b1 # b2 # b3 # rest) = (b0 AND 0xF = 0 \<and> oneWordElements rest)"
| "oneWordElements _ = False"


section \<open>External libraries\<close>

text \<open>
  The workers call two libraries that are not part of the repository: tweetnacl
  (\<^verbatim>\<open>nacl.secretbox\<close>, \<^verbatim>\<open>nacl.secretbox.open\<close>) and an Opus codec.  Their primitives
  are parameters of the model: \<open>box msg nonce key\<close> is the sealed box,
  \<open>box_open c nonce key\<close> is the plaintext or \<open>None\<close> for tweetnacl's \<^verbatim>\<open>null\<close>,
  \<open>opusEncode\<close> and \<open>opusDecode\<close> return \<open>None\<close> where the codec throws.  The
  length checks that tweetnacl makes before it touches the data are written out.
\<close>

type_synonym box_fn = "bytes \<Rightarrow> bytes \<Rightarrow> bytes \<Rightarrow> bytes"
type_synonym box_open_fn = "bytes \<Rightarrow> bytes \<Rightarrow> bytes \<Rightarrow> bytes option"
type_synonym codec_fn = "bytes \<Rightarrow> bytes option"

definition secretbox :: "box_fn \<Rightarrow> bytes \<Rightarrow> bytes \<Rightarrow> bytes \<Rightarrow> error + bytes" where
  "secretbox box msg nonce key =
     (if length key \<noteq> 32 then Inl BadKeySize
      else if length nonce \<noteq> 24 then Inl BadNonceSize
      else Inr (box msg nonce key))"

definition secretbox_open ::
  "box_open_fn \<Rightarrow> bytes \<Rightarrow> bytes \<Rightarrow> bytes \<Rightarrow> error + bytes option" where
  "secretbox_open box_open c nonce key =
     (if length key \<noteq> 32 then Inl BadKeySize
      else if length nonce \<noteq> 24 then Inl BadNonceSize
      else Inr (box_open c nonce key))"

text \<open>
  What an authenticated cipher guarantees: a box opens under the nonce and key it was
  sealed with, and under no other nonce.
\<close>

definition box_correct :: "box_fn \<Rightarrow> box_open_fn \<Rightarrow> bool" where
  "box_correct box box_open = (\<forall>msg nonce key. box_open (box msg nonce key) nonce key = Some msg)"

definition nonce_binding :: "box_fn \<Rightarrow> box_open_fn \<Rightarrow> bool" where
  "nonce_binding box box_open =
     (\<forall>msg nonce nonce' key.
        length nonce = 24 \<and> length nonce' = 24 \<and> nonce \<noteq> nonce'
          \<longrightarrow> box_open (box msg nonce key) nonce' key = None)"

text \<open>
  A reference cipher with both properties, used to instantiate them: the box carries
  its nonce and key in front of the message, and opening compares them.
\<close>

definition ideal_box :: box_fn where
  "ideal_box msg nonce key = nonce @ key @ msg"

definition ideal_box_open :: box_open_fn where
  "ideal_box_open c nonce key =
     (if take (length nonce) c = nonce
         \<and> take (length key) (drop (length nonce) c) = key
      then Some (drop (length nonce + length key) c)
      else None)"

section \<open>audioEncodingWorker.ts\<close>

text \<open>The worker's variables after the \<^verbatim>\<open>init\<close> message.\<close>

record worker =
  w_ssrc :: nat
  w_secretKey :: bytes
  w_mode :: string

text \<open>The twelve header bytes, written in the order of the source.\<close>

definition rtpHeader :: "nat \<Rightarrow> nat \<Rightarrow> nat \<Rightarrow> error + bytes" where
  "rtpHeader sequence timestamp ssrc =
     (case writeUInt16BE sequence of
        Inl e \<Rightarrow> Inl e
      | Inr sq \<Rightarrow>
          (case writeUInt32BE timestamp of
             Inl e \<Rightarrow> Inl e
           | Inr ts \<Rightarrow>
               (case writeUInt32BE ssrc of
                  Inl e \<Rightarrow> Inl e
                | Inr ss \<Rightarrow> Inr ([0x80, 120] @ sq @ ts @ ss))))"

text \<open>
  The \<^verbatim>\<open>encode\<close> message handler: \<open>Inr\<close> is the packet of the \<^verbatim>\<open>encoded\<close> reply,
  \<open>Inl\<close> the \<^verbatim>\<open>error\<close> reply posted from the \<^verbatim>\<open>catch\<close> block.
\<close>

definition encode ::
  "codec_fn \<Rightarrow> box_fn \<Rightarrow> worker \<Rightarrow> bytes \<Rightarrow> nat \<Rightarrow> nat \<Rightarrow> error + bytes" where
  "encode opusEncode box w pcmBuffer sequence timestamp =
     (case rtpHeader sequence timestamp (w_ssrc w) of
        Inl e \<Rightarrow> Inl e
      | Inr hdr \<Rightarrow>
          (case opusEncode pcmBuffer of
             None \<Rightarrow> Inl OpusEncodeFailed
           | Some opusData \<Rightarrow>
               if w_mode w = ''xsalsa20_poly1305_lite''
               then (case writeUInt32BE sequence of
                       Inl e \<Rightarrow> Inl e
                     | Inr nonceBuffer \<Rightarrow>
                         (case secretbox box opusData (nonceBuffer @ alloc 20) (w_secretKey w) of
                            Inl e \<Rightarrow> Inl e
                          | Inr encrypted \<Rightarrow> Inr (hdr @ encrypted @ nonceBuffer)))
               else Inr (hdr @ opusData)))"

section \<open>audioDecodingWorker.ts\<close>

record DecodedFrame =
  frame_pcmData :: bytes
  frame_sequence :: nat
  frame_timestamp :: nat

datatype worker_reply = Decoded DecodedFrame | Failed error

text \<open>
  The 24-byte nonce of the decoder: \<^verbatim>\<open>Buffer.alloc(24)\<close>, the first 12 packet bytes
  copied to offset 0 and the nonce suffix to offset 12.
\<close>

definition receiveNonce :: "bytes \<Rightarrow> bytes \<Rightarrow> bytes" where
  "receiveNonce rtpPacket nonceBuffer = take 12 rtpPacket @ nonceBuffer @ alloc 8"

text \<open>
  The branch of \<^verbatim>\<open>decode\<close> that computes \<^verbatim>\<open>opusData\<close>: the decrypted payload in the
  lite mode, the bytes after the header otherwise.
\<close>

definition openPayload ::
  "box_open_fn \<Rightarrow> worker \<Rightarrow> bytes \<Rightarrow> nat \<Rightarrow> nat \<Rightarrow> error + bytes" where
  "openPayload box_open w rtpPacket sequence timestamp =
     (if w_mode w = ''xsalsa20_poly1305_lite''
      then if length rtpPacket < 16 then Inl EncryptedTooShort
           else (let nonceBuffer = slice_last 4 rtpPacket;
                     encryptedData = slice_between 12 4 rtpPacket;
                     isLikelySilencePacket =
                       (sequence = 7 \<and> timestamp = 45110 \<and> length encryptedData \<le> 40)
                 in if isLikelySilencePacket then Inr (alloc 0)
                    else (case secretbox_open box_open encryptedData
                                 (receiveNonce rtpPacket nonceBuffer) (w_secretKey w) of
                            Inl e \<Rightarrow> Inl e
                          | Inr None \<Rightarrow> Inl DecryptFailed
                          | Inr (Some decrypted) \<Rightarrow> Inr decrypted))
      else Inr (slice_from 12 rtpPacket))"

text \<open>
  The \<^verbatim>\<open>decode\<close> message handler.  The first component is the reply posted to the main
  thread, the second the list of payloads handed to \<^verbatim>\<open>opusDecoder.decode\<close>.
\<close>

definition decode ::
  "codec_fn \<Rightarrow> box_open_fn \<Rightarrow> worker \<Rightarrow> bytes \<Rightarrow> worker_reply \<times> bytes list" where
  "decode opusDecode box_open w rtpPacket =
     (if length rtpPacket < 12 then (Failed RtpTooShort, [])
      else (case readUInt16BE rtpPacket 2 of
              Inl e \<Rightarrow> (Failed e, [])
            | Inr sequence \<Rightarrow>
                (case readUInt32BE rtpPacket 4 of
                   Inl e \<Rightarrow> (Failed e, [])
                 | Inr timestamp \<Rightarrow>
                     (case openPayload box_open w rtpPacket sequence timestamp of
                        Inl e \<Rightarrow> (Failed e, [])
                      | Inr opusData \<Rightarrow>
                          (let cleanOpusData = extractOpusFromRTP opusData
                           in if length cleanOpusData = 0
                              then (Decoded \<lparr>frame_pcmData = alloc (960 * 2 * 2),
                                      frame_sequence = sequence,
                                      frame_timestamp = timestamp\<rparr>, [])
                              else (case opusDecode cleanOpusData of
                                      Some decoded \<Rightarrow>
                                        (Decoded \<lparr>frame_pcmData = decoded,
                                           frame_sequence = sequence,
                                           frame_timestamp = timestamp\<rparr>, [cleanOpusData])
                                    | None \<Rightarrow>
                                        (Decoded \<lparr>frame_pcmData = alloc (960 * 2 * 2),
                                           frame_sequence = sequence,
                                           frame_timestamp = timestamp\<rparr>,
                                         [cleanOpusData])))))))"

section \<open>AudioBufferManager\<close>

text \<open>
  Times are milliseconds of \<^verbatim>\<open>Date.now()\<close>, passed in as \<open>now\<close>.  A pending timer
  is kept as the time at which it fires; its callback is \<^verbatim>\<open>flushBuffer(userId)\<close>.
\<close>

subsection \<open>The arithmetic of the duration estimate\<close>

text \<open>
  JavaScript numbers are IEEE 754 doubles, and \<^verbatim>\<open>(totalBytes / bytesPerSecond) * 1000\<close>
  rounds twice.  A double that is not negative is written as a mantissa and a binary
  exponent, \<open>(m, x)\<close> for \<open>m * 2 ^ x\<close>.  \<open>roundToDouble n d\<close> is the double nearest to
  the fraction \<open>n / d\<close>, ties going to the even mantissa, as the hardware rounds the
  result of every operation: the fraction is scaled so that its integer part has 53
  bits and then rounded to an integer.  Byte counts are below \<open>2 ^ 53\<close> and therefore
  exact; the quotients and products that occur are far from the subnormal range and
  from overflow, which are not modelled.
\<close>

type_synonym double = "nat \<times> int"

function bitLength :: "nat \<Rightarrow> nat" where
  "bitLength n = (if n = 0 then 0 else Suc (bitLength (n div 2)))"
  by pat_completeness auto
termination
  by (relation "measure id") auto

declare bitLength.simps [simp del]

definition roundToDouble :: "nat \<Rightarrow> nat \<Rightarrow> double" where
  "roundToDouble n d =
     (if n = 0 then (0, 0)
      else (let k = int (bitLength n) - int (bitLength d);
                e = (if (if 0 \<le> k then 2 ^ nat k * d \<le> n else d \<le> n * 2 ^ nat (- k))
                     then k else k - 1);
                s = 52 - e;
                N = (if 0 \<le> s then n * 2 ^ nat s else n);
                D = (if 0 \<le> s then d else d * 2 ^ nat (- s));
                q = N div D;
                r = N mod D;
                m = (if 2 * r < D then q
                     else if D < 2 * r then q + 1
                     else if even q then q else q + 1)
            in (m, - s)))"

text \<open>The number a double stands for.\<close>

definition doubleValue :: "double \<Rightarrow> rat" where
  "doubleValue v =
     (case v of (m, x) \<Rightarrow>
        if 0 \<le> x then of_nat (m * 2 ^ nat x) else of_nat m / of_nat (2 ^ nat (- x)))"

text \<open>\<^verbatim>\<open>a / b\<close> for two integers, and \<^verbatim>\<open>v * k\<close> for a double and an integer.\<close>

definition divDouble :: "nat \<Rightarrow> nat \<Rightarrow> double" where
  "divDouble a b = roundToDouble a b"

definition mulDouble :: "double \<Rightarrow> nat \<Rightarrow> double" where
  "mulDouble v k =
     (case v of (m, x) \<Rightarrow>
        if 0 \<le> x then roundToDouble (m * k * 2 ^ nat x) 1
        else roundToDouble (m * k) (2 ^ nat (- x)))"

subsection \<open>The manager\<close>

record AudioChunk =
  chunk_pcmData :: bytes
  chunk_timestamp :: nat
  chunk_userId :: string

record AudioReady =
  userId :: string
  audioBuffer :: bytes
  startTime :: nat
  endTime :: nat
  chunkCount :: nat

record manager =
  buffers :: "string \<rightharpoonup> AudioChunk list"
  timers :: "string \<rightharpoonup> nat"
  bufferTimeoutMs :: nat
  maxBufferSizeMs :: rat
  emitted :: "AudioReady list"

text \<open>\<^verbatim>\<open>new AudioBufferManager(bufferTimeoutMs, maxBufferSizeMs)\<close>.\<close>

definition newAudioBufferManager :: "nat \<Rightarrow> rat \<Rightarrow> manager" where
  "newAudioBufferManager timeoutMs maxMs =
     \<lparr>buffers = Map.empty, timers = Map.empty, bufferTimeoutMs = timeoutMs,
      maxBufferSizeMs = maxMs, emitted = []\<rparr>"

text \<open>
  The estimate in milliseconds, as the number the double stands for.  The maximum it is
  compared with is a number as well.
\<close>

definition estimateBufferDuration :: "AudioChunk list \<Rightarrow> rat" where
  "estimateBufferDuration chunks =
     (if length chunks = 0 then 0
      else (let totalBytes = foldl (\<lambda>sum chunk. sum + length (chunk_pcmData chunk)) 0 chunks;
                bytesPerSecond = 48000 * 2 * 2
            in doubleValue (mulDouble (divDouble totalBytes bytesPerSecond) 1000)))"

definition flushBuffer :: "string \<Rightarrow> manager \<Rightarrow> manager" where
  "flushBuffer uid m =
     (case buffers m uid of
        None \<Rightarrow> m
      | Some userBuffer \<Rightarrow>
          if length userBuffer = 0 then m
          else m\<lparr>emitted := emitted m @
                     [\<lparr>userId = uid,
                       audioBuffer = concat (map chunk_pcmData userBuffer),
                       startTime = chunk_timestamp (hd userBuffer),
                       endTime = chunk_timestamp (last userBuffer),
                       chunkCount = length userBuffer\<rparr>],
                 buffers := (buffers m)(uid \<mapsto> []),
                 timers := (timers m)(uid := None)\<rparr>)"

definition addAudioChunk :: "nat \<Rightarrow> string \<Rightarrow> bytes \<Rightarrow> manager \<Rightarrow> manager" where
  "addAudioChunk now uid pcm m =
     (let chunk = \<lparr>chunk_pcmData = pcm, chunk_timestamp = now, chunk_userId = uid\<rparr>;
          userBuffer = (case buffers m uid of None \<Rightarrow> [] | Some b \<Rightarrow> b) @ [chunk];
          m1 = m\<lparr>buffers := (buffers m)(uid \<mapsto> userBuffer),
                 timers := (timers m)(uid \<mapsto> now + bufferTimeoutMs m)\<rparr>;
          totalDuration = estimateBufferDuration userBuffer
      in if totalDuration > maxBufferSizeMs m then flushBuffer uid m1 else m1)"

text \<open>The chunks buffered for a speaker; a missing key has none.\<close>

definition slot :: "manager \<Rightarrow> string \<Rightarrow> AudioChunk list" where
  "slot m uid = (case buffers m uid of None \<Rightarrow> [] | Some b \<Rightarrow> b)"

section \<open>threadedWebrtcVoiceHandler.ts\<close>

text \<open>
  What the handler puts on the wire, in order: op 5 messages on the voice websocket
  (the \<^verbatim>\<open>speaking\<close> value and the \<^verbatim>\<open>ssrc\<close>; \<^verbatim>\<open>delay\<close> is always 0) and UDP datagrams.
\<close>

datatype wire_event = Op5 nat "nat option" | Udp bytes

text \<open>
  The fields of the handler that the send and receive paths use.  The class exists in
  two copies that differ in one field only: \<open>ssrcUserMap\<close>, the map from SSRC to user id
  that op 5 fills and the UDP listener reads.  The model follows the copy that has it;
  the other copy behaves as the model does with an empty map that is never written.
  An optional field is \<open>None\<close> or \<open>False\<close> when the source has \<^verbatim>\<open>undefined\<close>; a worker
  that is present has been initialised by op 4.  \<open>frameIndex\<close> is the variable of the \<^verbatim>\<open>sendNextFrame\<close>
  closure, of which at most one is live (\<open>isSending\<close>).  \<open>sent\<close> and \<open>audioReceived\<close>
  keep the sends and the emitted \<^verbatim>\<open>audioReceived\<close> events in order.
\<close>

record handler =
  voiceWebsocket :: bool
  udpSocket :: bool
  ssrc :: "nat option"
  encodingWorker :: "worker option"
  decodingWorker :: "worker option"
  sequence :: nat
  timestamp :: nat
  speaking :: bool
  sendQueue :: "bytes list"
  isSending :: bool
  frameIndex :: nat
  audioBufferManager :: "manager option"
  transcriptionEnabled :: bool
  ssrcUserMap :: "nat \<rightharpoonup> string"
  sent :: "wire_event list"
  audioReceived :: "DecodedFrame list"

text \<open>A number in a template literal: its decimal digits.\<close>

definition digitChar :: "nat \<Rightarrow> char" where
  "digitChar d = ''0123456789'' ! d"

function showNat :: "nat \<Rightarrow> string" where
  "showNat n = (if n < 10 then [digitChar n] else showNat (n div 10) @ [digitChar (n mod 10)])"
  by pat_completeness auto
termination
  by (relation "measure id") auto

declare showNat.simps [simp del]

text \<open>
  The UDP \<^verbatim>\<open>message\<close> listener installed by op 2.  \<^verbatim>\<open>decodeFrame\<close> resolves only on a
  \<^verbatim>\<open>decoded\<close> reply; on an \<^verbatim>\<open>error\<close> reply the promise is dropped and the listener never
  continues.
\<close>

text \<open>
  \<^verbatim>\<open>packetSsrc\<close>: bytes 8 to 11 of a datagram of at least 12 bytes, \<^verbatim>\<open>undefined\<close>
  otherwise.  \<open>boundUser\<close> is the user id the listener finds for it: the SSRC must be
  truthy (not 0) and a key of the map.
\<close>

definition packetSsrc :: "bytes \<Rightarrow> nat option" where
  "packetSsrc packet =
     (if length packet \<ge> 12
      then (case readUInt32BE packet 8 of Inl e \<Rightarrow> None | Inr v \<Rightarrow> Some v)
      else None)"

definition boundUser :: "handler \<Rightarrow> bytes \<Rightarrow> string option" where
  "boundUser h packet =
     (case packetSsrc packet of
        None \<Rightarrow> None
      | Some v \<Rightarrow> if v \<noteq> 0 then ssrcUserMap h v else None)"

definition onUdpMessage ::
  "codec_fn \<Rightarrow> box_open_fn \<Rightarrow> nat \<Rightarrow> bytes \<Rightarrow> handler \<Rightarrow> handler" where
  "onUdpMessage opusDecode box_open now packet h =
     (case decodingWorker h of
        None \<Rightarrow> h
      | Some w \<Rightarrow>
          (case fst (decode opusDecode box_open w packet) of
             Failed e \<Rightarrow> h
           | Decoded decoded \<Rightarrow>
               (let h1 = h\<lparr>audioReceived := audioReceived h @ [decoded]\<rparr>
                in case audioBufferManager h1 of
                     None \<Rightarrow> h1
                   | Some m \<Rightarrow>
                       if transcriptionEnabled h1 \<and> length (frame_pcmData decoded) > 0
                       then (let fallback = ''user_'' @ showNat (frame_sequence decoded mod 1000);
                                 uid = (case boundUser h1 packet of
                                          Some user \<Rightarrow> user
                                        | None \<Rightarrow> fallback)
                             in h1\<lparr>audioBufferManager :=
                                     Some (addAudioChunk now uid (frame_pcmData decoded) m)\<rparr>)
                       else h1)))"

text \<open>
  \<^verbatim>\<open>handleVoiceMessage\<close> for the voice ops that arrive during a session: op 6
  (heartbeat ack) and op 5 (speaking).  The fields \<^verbatim>\<open>user_id\<close>, \<^verbatim>\<open>ssrc\<close> and \<^verbatim>\<open>speaking\<close> of
  an op 5 message are \<open>None\<close> when absent.  The binding is stored when \<^verbatim>\<open>speaking\<close> is
  present and \<^verbatim>\<open>ssrc\<close> and \<^verbatim>\<open>user_id\<close> are truthy.  Ops 2 and 4 set the connection up and
  are not part of this model.
\<close>

datatype voice_message = HeartbeatAck | Speaking "string option" "nat option" "nat option"

definition handleVoiceMessage :: "voice_message \<Rightarrow> handler \<Rightarrow> handler" where
  "handleVoiceMessage message h =
     (case message of
        HeartbeatAck \<Rightarrow> h
      | Speaking user_id peer_ssrc flag \<Rightarrow>
          (case (flag, peer_ssrc, user_id) of
             (Some f, Some v, Some user) \<Rightarrow>
               if v \<noteq> 0 \<and> user \<noteq> [] then h\<lparr>ssrcUserMap := (ssrcUserMap h)(v \<mapsto> user)\<rparr>
               else h
           | _ \<Rightarrow> h))"




text \<open>
  The frame loop of \<^verbatim>\<open>playAudio\<close>: \<open>n\<close> iterations are left, \<open>i\<close> is the loop
  variable.  \<^verbatim>\<open>this.sequence++\<close> is evaluated before the frame goes to the worker.  When
  the worker replies \<^verbatim>\<open>error\<close> the awaited promise is never settled: the loop stops
  there for good, which is the \<open>Inl\<close> result with the state reached.
\<close>

fun encodeFrames ::
  "codec_fn \<Rightarrow> box_fn \<Rightarrow> worker \<Rightarrow> bytes \<Rightarrow> nat \<Rightarrow> nat \<Rightarrow> handler \<Rightarrow> bytes list
     \<Rightarrow> (error \<times> handler) + (handler \<times> bytes list)" where
  "encodeFrames opusEncode box w pcmData 0 i h processedFrames = Inr (h, processedFrames)"
| "encodeFrames opusEncode box w pcmData (Suc n) i h processedFrames =
     (let frameSize = 960 * 2 * 2;
          offset = i * frameSize;
          frame = take frameSize (drop offset pcmData);
          frame = (if length frame < frameSize then frame @ alloc (frameSize - length frame)
                   else frame);
          h1 = h\<lparr>sequence := sequence h + 1\<rparr>
      in case encode opusEncode box w frame (sequence h) (timestamp h) of
           Inl e \<Rightarrow> Inl (e, h1)
         | Inr rtpPacket \<Rightarrow>
             encodeFrames opusEncode box w pcmData n (i + 1)
               (h1\<lparr>timestamp := timestamp h1 + 960\<rparr>) (processedFrames @ [rtpPacket]))"







text \<open>
  The handler as its constructor leaves it: both counters 0, not speaking, nothing
  queued, no SSRC bound.  \<open>sttAvailable\<close> says whether \<^verbatim>\<open>new ElevenLabsSTT()\<close> succeeds
  (it throws without an API key): if so, transcription is enabled with a buffer manager
  of 2 s silence timeout and 10 s maximum; if not, the \<^verbatim>\<open>catch\<close> block disables
  transcription and no buffer manager exists.  The websocket, the socket and the
  initialised workers arrive with \<^verbatim>\<open>connect\<close>, op 2 and op 4.
\<close>

definition newHandler :: "bool \<Rightarrow> handler" where
  "newHandler sttAvailable =
     \<lparr>voiceWebsocket = False, udpSocket = False, ssrc = None,
      encodingWorker = None, decodingWorker = None,
      sequence = 0, timestamp = 0, speaking = False,
      sendQueue = [], isSending = False, frameIndex = 0,
      audioBufferManager =
        (if sttAvailable then Some (newAudioBufferManager 2000 10000) else None),
      transcriptionEnabled = sttAvailable, ssrcUserMap = Map.empty,
      sent = [], audioReceived = []\<rparr>"

text \<open>The chunks the handler's buffer manager holds for a speaker key.\<close>

definition speakerSlot :: "handler \<Rightarrow> string \<Rightarrow> AudioChunk list" where
  "speakerSlot h uid = (case audioBufferManager h of None \<Rightarrow> [] | Some m \<Rightarrow> slot m uid)"



section \<open>Extension stripping (C6)\<close>

lemma skipExtensions_oneWord:
  "oneWordElements ext \<Longrightarrow> P \<noteq> [] \<Longrightarrow> length pre = off \<Longrightarrow>
   skipExtensions (pre @ ext @ P) (length ext div 4) off = off + length ext"
proof (induction ext arbitrary: pre off rule: oneWordElements.induct)
  case 1
  then show ?case by simp
next
  case (2 b0 b1 b2 b3 rest)
  let ?d = "pre @ (b0 # b1 # b2 # b3 # rest) @ P"
  have l: "length (pre @ [b0, b1, b2, b3]) = off + 4"
    using "2.prems" by simp
  have IH: "skipExtensions ((pre @ [b0, b1, b2, b3]) @ rest @ P) (length rest div 4) (off + 4)
            = off + 4 + length rest"
    using "2.prems" by (intro "2.IH" l) simp_all
  have d: "(pre @ [b0, b1, b2, b3]) @ rest @ P = ?d" by simp
  have cnt: "length (b0 # b1 # b2 # b3 # rest) div 4 = Suc (length rest div 4)" by simp
  have at: "?d ! off = b0" using "2.prems" by (simp add: nth_append)
  have lt: "off < length ?d" using "2.prems" by auto
  have nib: "unat (b0 AND 0xF) = 0" using "2.prems" by simp
  have "skipExtensions ?d (Suc (length rest div 4)) off
        = skipExtensions ?d (length rest div 4) (off + 4)"
    using at lt nib by (simp del: append.simps)
  also have "\<dots> = off + 4 + length rest"
    using IH unfolding d .
  also have "\<dots> = off + length (b0 # b1 # b2 # b3 # rest)" by simp
  finally show ?case unfolding cnt .
qed simp_all

lemma skipPadding_stop:
  "offset < length d \<Longrightarrow> d ! offset \<noteq> 0 \<Longrightarrow> skipPadding d offset = offset"
  by (subst skipPadding.simps) simp

text \<open>
  C6, as amended.  Stripping undoes prepending for every payload whose first byte is
  not zero and every extension area of at most 65535 words in which each word starts
  with an element header of length nibble 0: \<open>extractOpusFromRTP\<close> of the header, the
  extension area and the payload is the payload.
\<close>

theorem extractOpusFromRTP_append0xBEDEHeader:
  assumes "oneWordElements ext" "length ext div 4 \<le> 65535" "P \<noteq> []" "hd P \<noteq> 0"
  shows "extractOpusFromRTP (append0xBEDEHeader ext P) = P"
proof -
  let ?n = "length ext div 4"
  let ?pre = "[0xBE, 0xDE, of_nat (?n div 256), of_nat (?n mod 256)] :: bytes"
  let ?d = "?pre @ ext @ P"
  have n: "unat (of_nat (?n div 256) :: byte) * 256 + unat (of_nat (?n mod 256) :: byte) = ?n"
    using assms(2) by (simp add: unat_of_nat take_bit_nat_eq_self)
  have lp: "length ?pre = 4" by simp
  have sk: "skipExtensions ?d ?n 4 = 4 + length ext"
    using assms(1) assms(3) lp by (rule skipExtensions_oneWord)
  have nth: "?d ! (4 + length ext) = hd P"
    using assms(3) by (cases P) (simp_all add: nth_append)
  have sp: "skipPadding ?d (4 + length ext) = 4 + length ext"
    using assms nth by (intro skipPadding_stop) auto
  have b: "?d ! 0 = 0xBE" "?d ! 1 = 0xDE" "?d ! 2 = of_nat (?n div 256)"
    "?d ! 3 = of_nat (?n mod 256)"
    by simp_all
  have len: "length ?d > 4" using assms(3) by (cases P) simp_all
  have "extractOpusFromRTP ?d = drop (4 + length ext) ?d"
    unfolding extractOpusFromRTP_def Let_def slice_from_def
    using len b n sk sp by (simp del: append.simps)
  also have "\<dots> = P" by (simp add: drop_Cons')
  finally show ?thesis by (simp add: append0xBEDEHeader_def)
qed

theorem extractOpusFromRTP_append0xBEDEHeader_witness:
  "oneWordElements [0x10, 0xAA, 0, 0] \<and> length [0x10, 0xAA, 0, 0 :: byte] div 4 \<le> 65535
   \<and> [0xF8, 0xFF, 0xFE :: byte] \<noteq> [] \<and> hd [0xF8, 0xFF, 0xFE :: byte] \<noteq> 0
   \<and> extractOpusFromRTP (append0xBEDEHeader [0x10, 0xAA, 0, 0] [0xF8, 0xFF, 0xFE])
       = [0xF8, 0xFF, 0xFE]"
  using extractOpusFromRTP_append0xBEDEHeader [of "[0x10, 0xAA, 0, 0]" "[0xF8, 0xFF, 0xFE]"]
  by simp

text \<open>
  C6 as stated fails.  A payload that starts with a zero byte loses it to the padding
  loop (\<open>[0, 1]\<close> comes back as \<open>[1]\<close>), and an element header with length nibble 1
  makes the loop skip two words where the header announces one, so the first four
  payload bytes are lost.
\<close>

theorem extractOpusFromRTP_append0xBEDEHeader_counterexample:
  "extractOpusFromRTP (append0xBEDEHeader [] [0, 1]) \<noteq> [0, 1]
   \<and> extractOpusFromRTP (append0xBEDEHeader [0x11, 0xAA, 0xBB, 0] [0xF8, 1, 2, 3, 4, 5])
       \<noteq> [0xF8, 1, 2, 3, 4, 5]"
  by (simp add: extractOpusFromRTP_def append0xBEDEHeader_def slice_from_def skipPadding.simps)

section \<open>The per-speaker buffer (C7, C10)\<close>

lemma slot_flushBuffer: "slot (flushBuffer uid m) uid = []"
  by (simp add: slot_def flushBuffer_def split: option.splits)

lemma addAudioChunk_unfold:
  "addAudioChunk now uid pcm m =
     (let userBuffer = slot m uid @
                       [\<lparr>chunk_pcmData = pcm, chunk_timestamp = now, chunk_userId = uid\<rparr>];
          m1 = m\<lparr>buffers := (buffers m)(uid \<mapsto> userBuffer),
                 timers := (timers m)(uid \<mapsto> now + bufferTimeoutMs m)\<rparr>
      in if estimateBufferDuration userBuffer > maxBufferSizeMs m
         then flushBuffer uid m1 else m1)"
  by (simp add: addAudioChunk_def slot_def Let_def)

lemma addAudioChunk_flushed:
  assumes "estimateBufferDuration
             (slot m uid @ [\<lparr>chunk_pcmData = pcm, chunk_timestamp = now, chunk_userId = uid\<rparr>])
           > maxBufferSizeMs m"
  shows "slot (addAudioChunk now uid pcm m) uid = []
    \<and> emitted (addAudioChunk now uid pcm m) = emitted m @
           [\<lparr>userId = uid,
             audioBuffer = concat (map chunk_pcmData (slot m uid)) @ pcm,
             startTime = (case slot m uid of [] \<Rightarrow> now | c # cs \<Rightarrow> chunk_timestamp c),
             endTime = now,
             chunkCount = length (slot m uid) + 1\<rparr>]"
  using assms
  by (cases "slot m uid")
     (simp_all add: addAudioChunk_unfold Let_def slot_flushBuffer, simp_all add: flushBuffer_def)

lemma addAudioChunk_kept:
  assumes "\<not> estimateBufferDuration
             (slot m uid @ [\<lparr>chunk_pcmData = pcm, chunk_timestamp = now, chunk_userId = uid\<rparr>])
           > maxBufferSizeMs m"
  shows "slot (addAudioChunk now uid pcm m) uid
           = slot m uid @ [\<lparr>chunk_pcmData = pcm, chunk_timestamp = now, chunk_userId = uid\<rparr>]
    \<and> emitted (addAudioChunk now uid pcm m) = emitted m"
  using assms by (simp add: addAudioChunk_unfold Let_def slot_def)

lemma bitLength_numeral:
  "bitLength 0 = 0"
  "bitLength (Suc 0) = Suc 0"
  "bitLength (numeral k) = Suc (bitLength (numeral k div 2))"
  by (subst bitLength.simps, simp)+

lemma estimate_one:
  "estimateBufferDuration [c]
     = doubleValue (mulDouble (divDouble (length (chunk_pcmData c)) 192000) 1000)"
  by (simp add: estimateBufferDuration_def)

lemma estimate_two:
  "estimateBufferDuration [c, d]
     = doubleValue (mulDouble (divDouble (length (chunk_pcmData c) + length (chunk_pcmData d))
                       192000) 1000)"
  by (simp add: estimateBufferDuration_def)

lemma double_20_ms: "doubleValue (mulDouble (divDouble 3840 192000) 1000) = 20"
  by (simp add: divDouble_def mulDouble_def doubleValue_def roundToDouble_def Let_def
        bitLength_numeral)

lemma double_10_s: "doubleValue (mulDouble (divDouble 1920000 192000) 1000) = 10000"
  by (simp add: divDouble_def mulDouble_def doubleValue_def roundToDouble_def Let_def
        bitLength_numeral)

lemma double_10020_ms: "doubleValue (mulDouble (divDouble 1923840 192000) 1000) = 10020"
  by (simp add: divDouble_def mulDouble_def doubleValue_def roundToDouble_def Let_def
        bitLength_numeral)

lemma estimate_rounds_down:
  "estimateBufferDuration
     [\<lparr>chunk_pcmData = replicate 192192 0, chunk_timestamp = 0, chunk_userId = ''u''\<rparr>]
   = 8804889115230207 / 8796093022208
   \<and> (8804889115230207 / 8796093022208 :: rat) < 1001"
  by (simp add: estimate_one divDouble_def mulDouble_def doubleValue_def roundToDouble_def Let_def
        bitLength_numeral)

text \<open>
  The estimate rounds as the code does: 192,192 bytes, 1001 ms exactly, come out just
  below 1001, and 403 frames of 20 ms just above 8060.
\<close>

lemma estimate_403_frames:
  "estimateBufferDuration
     [\<lparr>chunk_pcmData = replicate 1547520 0, chunk_timestamp = 0, chunk_userId = ''u''\<rparr>]
   = 8862063719874561 / 1099511627776
   \<and> (8060 :: rat) < 8862063719874561 / 1099511627776"
  by (simp add: estimate_one divDouble_def mulDouble_def doubleValue_def roundToDouble_def Let_def
        bitLength_numeral)

text \<open>
  C7, as amended.  \<open>addAudioChunk\<close> stores the chunk first.  If the estimate of the
  slot, the new chunk included, then exceeds the maximum, the whole slot is flushed in
  the same call: the emitted utterance ends with the new chunk and the slot is left
  empty.  Otherwise the chunk stays in the slot and nothing is emitted.
\<close>

theorem addAudioChunk_store_then_flush:
  "slot (addAudioChunk now uid pcm m) uid =
     (if estimateBufferDuration
           (slot m uid @ [\<lparr>chunk_pcmData = pcm, chunk_timestamp = now, chunk_userId = uid\<rparr>])
         > maxBufferSizeMs m
      then []
      else slot m uid @ [\<lparr>chunk_pcmData = pcm, chunk_timestamp = now, chunk_userId = uid\<rparr>])
   \<and> emitted (addAudioChunk now uid pcm m) =
     (if estimateBufferDuration
           (slot m uid @ [\<lparr>chunk_pcmData = pcm, chunk_timestamp = now, chunk_userId = uid\<rparr>])
         > maxBufferSizeMs m
      then emitted m @
           [\<lparr>userId = uid,
             audioBuffer = concat (map chunk_pcmData (slot m uid)) @ pcm,
             startTime = (case slot m uid of [] \<Rightarrow> now | c # cs \<Rightarrow> chunk_timestamp c),
             endTime = now,
             chunkCount = length (slot m uid) + 1\<rparr>]
      else emitted m)"
  using addAudioChunk_flushed [of m uid pcm now] addAudioChunk_kept [of m uid pcm now]
  by (cases "estimateBufferDuration
           (slot m uid @ [\<lparr>chunk_pcmData = pcm, chunk_timestamp = now, chunk_userId = uid\<rparr>])
         > maxBufferSizeMs m") simp_all

text \<open>
  C7 as stated fails.  With the default limits, a slot holding 10 s of audio
  (1,920,000 bytes) and a new 20 ms chunk: the utterance emitted by that call has two
  chunks and ends with the chunk that caused the overflow.
\<close>

theorem addAudioChunk_flush_first_counterexample:
  "emitted (addAudioChunk 20 ''user_1'' (replicate 3840 1)
      (addAudioChunk 0 ''user_1'' (replicate 1920000 0) (newAudioBufferManager 2000 10000)))
   = [\<lparr>userId = ''user_1'',
        audioBuffer = replicate 1920000 0 @ replicate 3840 1,
        startTime = 0, endTime = 20, chunkCount = 2\<rparr>]"
  by (simp add: addAudioChunk_def flushBuffer_def newAudioBufferManager_def
        estimate_one estimate_two double_10_s double_10020_ms Let_def)

text \<open>
  C10, as amended.  For a maximum that is not negative, the estimated duration of the
  speaker's slot is at most the maximum when \<open>addAudioChunk\<close> returns, because the call
  appends the chunk and then either leaves the slot as it is, when the estimate with
  the new chunk is within the maximum, or flushes it: the slot is empty and all its
  chunks, the new one included, have been emitted as one utterance.
\<close>

theorem addAudioChunk_duration_bound:
  assumes "0 \<le> maxBufferSizeMs m"
  shows "estimateBufferDuration (slot (addAudioChunk now uid pcm m) uid) \<le> maxBufferSizeMs m
    \<and> (if estimateBufferDuration
             (slot m uid @ [\<lparr>chunk_pcmData = pcm, chunk_timestamp = now, chunk_userId = uid\<rparr>])
           > maxBufferSizeMs m
        then slot (addAudioChunk now uid pcm m) uid = []
           \<and> emitted (addAudioChunk now uid pcm m) = emitted m @
               [\<lparr>userId = uid,
                 audioBuffer = concat (map chunk_pcmData (slot m uid)) @ pcm,
                 startTime = (case slot m uid of [] \<Rightarrow> now | c # cs \<Rightarrow> chunk_timestamp c),
                 endTime = now,
                 chunkCount = length (slot m uid) + 1\<rparr>]
        else slot (addAudioChunk now uid pcm m) uid
               = slot m uid @ [\<lparr>chunk_pcmData = pcm, chunk_timestamp = now, chunk_userId = uid\<rparr>]
           \<and> emitted (addAudioChunk now uid pcm m) = emitted m)"
proof (cases "estimateBufferDuration
             (slot m uid @ [\<lparr>chunk_pcmData = pcm, chunk_timestamp = now, chunk_userId = uid\<rparr>])
           > maxBufferSizeMs m")
  case True
  note f = addAudioChunk_flushed [OF True]
  have "estimateBufferDuration (slot (addAudioChunk now uid pcm m) uid) = 0"
    using f by (simp add: estimateBufferDuration_def)
  with assms f True show ?thesis by simp
next
  case False
  note k = addAudioChunk_kept [OF False]
  with False show ?thesis by simp
qed

theorem addAudioChunk_duration_bound_witness:
  "(0::rat) \<le> maxBufferSizeMs (newAudioBufferManager 2000 10000) \<and>
   estimateBufferDuration
     (slot (addAudioChunk 5 ''user_7'' (replicate 3840 0) (newAudioBufferManager 2000 10000))
        ''user_7'') \<le> maxBufferSizeMs (newAudioBufferManager 2000 10000)
   \<and> slot (addAudioChunk 5 ''user_7'' (replicate 3840 0) (newAudioBufferManager 2000 10000))
        ''user_7''
      = [\<lparr>chunk_pcmData = replicate 3840 0, chunk_timestamp = 5, chunk_userId = ''user_7''\<rparr>]"
  using addAudioChunk_duration_bound [of "newAudioBufferManager 2000 10000" 5 "''user_7''" "replicate 3840 0"]
  by (simp add: newAudioBufferManager_def slot_def estimate_one double_20_ms)

text \<open>
  C10 as stated fails for a negative maximum: with a maximum of -1 the slot is flushed
  by every call, and the estimate 0 of the empty slot is above the maximum.
\<close>

theorem addAudioChunk_negative_maximum_counterexample:
  "\<not> estimateBufferDuration
       (slot (addAudioChunk 5 ''user_7'' (replicate 3840 0) (newAudioBufferManager 2000 (- 1)))
          ''user_7'')
     \<le> maxBufferSizeMs (newAudioBufferManager 2000 (- 1))"
  by (simp add: addAudioChunk_def flushBuffer_def newAudioBufferManager_def slot_def
        estimate_one double_20_ms estimateBufferDuration_def Let_def)

section \<open>The crypto round trip (C1)\<close>

lemma ideal_box_nonce_binding: "nonce_binding ideal_box ideal_box_open"
  by (simp add: nonce_binding_def ideal_box_def ideal_box_open_def)

lemma ideal_box_correct: "box_correct ideal_box ideal_box_open"
  by (simp add: box_correct_def ideal_box_def ideal_box_open_def)

lemma writeUInt32BE_length: "writeUInt32BE v = Inr bs \<Longrightarrow> length bs = 4"
  by (auto simp: writeUInt32BE_def split: if_splits)

lemma writeUInt16BE_length: "writeUInt16BE v = Inr bs \<Longrightarrow> length bs = 2 \<and> v \<le> 65535"
  by (auto simp: writeUInt16BE_def split: if_splits)

lemma rtpHeader_shape:
  assumes "rtpHeader s t c = Inr hdr"
  shows "length hdr = 12 \<and> hd hdr = 0x80 \<and> s \<le> 65535"
proof -
  from assms obtain sq ts ss where
    a: "writeUInt16BE s = Inr sq" and b: "writeUInt32BE t = Inr ts"
    and c: "writeUInt32BE c = Inr ss" and h: "hdr = [0x80, 120] @ sq @ ts @ ss"
    by (auto simp: rtpHeader_def split: sum.splits)
  from a b c h show ?thesis
    using writeUInt16BE_length [OF a] writeUInt32BE_length [OF b] writeUInt32BE_length [OF c]
    by simp
qed

lemma writeUInt32BE_small_hd:
  "s \<le> 65535 \<Longrightarrow> writeUInt32BE s = Inr bs \<Longrightarrow> hd bs = 0"
  by (auto simp: writeUInt32BE_def split: if_splits)

text \<open>The packet the encoder builds in the lite mode.\<close>

lemma encode_lite_shape:
  assumes "w_mode w = ''xsalsa20_poly1305_lite''"
    and "encode opusEncode box w pcm s t = Inr pkt"
    and "opusEncode pcm = Some P"
  shows "\<exists>hdr nb. pkt = hdr @ box P (nb @ alloc 20) (w_secretKey w) @ nb
           \<and> length hdr = 12 \<and> hd hdr = 0x80 \<and> length nb = 4 \<and> hd nb = 0
           \<and> length (w_secretKey w) = 32"
proof -
  from assms obtain hdr where h: "rtpHeader s t (w_ssrc w) = Inr hdr"
    by (auto simp: encode_def split: sum.splits)
  from assms h obtain nb where n: "writeUInt32BE s = Inr nb"
    by (auto simp: encode_def split: sum.splits)
  from assms h n obtain enc where
    e: "secretbox box P (nb @ alloc 20) (w_secretKey w) = Inr enc" and p: "pkt = hdr @ enc @ nb"
    by (auto simp: encode_def split: sum.splits)
  from e have k: "length (w_secretKey w) = 32"
    and enc: "enc = box P (nb @ alloc 20) (w_secretKey w)"
    by (auto simp: secretbox_def split: if_splits)
  from rtpHeader_shape [OF h] writeUInt32BE_length [OF n] writeUInt32BE_small_hd [OF _ n] p k enc
  show ?thesis by auto
qed

text \<open>
  C1, as amended.  For a cipher that opens a box under no nonce but the one it was
  sealed with, and for every payload, sequence, timestamp and key: the packet that
  \<open>encode\<close> builds in the lite mode is not opened by the decoder, whatever four
  bytes stand in the place of the nonce tail, the big-endian sequence included.  The
  sealing nonce starts with the byte 0 (the sequence fits 16 bits, or \<open>encode\<close>
  fails), the opening nonce with the header byte \<open>0x80\<close>, so \<open>openPayload\<close> ends in
  \<^verbatim>\<open>Failed to decrypt voice audio data\<close>, or, when the decoder reads sequence 7 and
  timestamp 45110 and the ciphertext has at most 40 bytes, skips decryption and yields
  the empty payload.
\<close>

theorem encoder_packet_rejected_by_decoder:
  assumes nb: "nonce_binding box box_open"
    and mode: "w_mode w = ''xsalsa20_poly1305_lite''"
    and enc: "encode opusEncode box w pcm s t = Inr pkt"
    and opus: "opusEncode pcm = Some P"
    and tail: "length tail = 4"
  shows "openPayload box_open w (take (length pkt - 4) pkt @ tail) sq ts =
           (if sq = 7 \<and> ts = 45110 \<and> length (slice_between 12 4 pkt) \<le> 40
            then Inr [] else Inl DecryptFailed)"
proof -
  from encode_lite_shape [OF mode enc opus] obtain hdr nb where
    p: "pkt = hdr @ box P (nb @ alloc 20) (w_secretKey w) @ nb"
    and lh: "length hdr = 12" and hh: "hd hdr = 0x80"
    and ln: "length nb = 4" and hn: "hd nb = 0" and lk: "length (w_secretKey w) = 32"
    by blast
  let ?c = "box P (nb @ alloc 20) (w_secretKey w)"
  let ?pkt = "take (length pkt - 4) pkt @ tail"
  have pk: "?pkt = hdr @ ?c @ tail" using p ln by simp
  have len: "\<not> length ?pkt < 16" unfolding pk using lh tail by simp
  have last: "slice_last 4 ?pkt = tail" unfolding pk using tail by (simp add: slice_last_def)
  have mid: "slice_between 12 4 ?pkt = ?c"
    unfolding pk using lh tail by (simp add: slice_between_def)
  have mid0: "slice_between 12 4 pkt = ?c" using p lh ln by (simp add: slice_between_def)
  have rn: "receiveNonce ?pkt tail = hdr @ tail @ alloc 8"
    unfolding pk using lh by (simp add: receiveNonce_def)
  have l1: "length (nb @ alloc 20) = 24" and l2: "length (hdr @ tail @ alloc 8) = 24"
    using lh ln tail by (simp_all add: alloc_def)
  have "hd (nb @ alloc 20) \<noteq> hd (hdr @ tail @ alloc 8)"
    using lh ln hh hn by (cases hdr; cases nb) simp_all
  then have ne: "nb @ alloc 20 \<noteq> hdr @ tail @ alloc 8" by metis
  have "box_open ?c (hdr @ tail @ alloc 8) (w_secretKey w) = None"
    using nb l1 l2 ne unfolding nonce_binding_def by blast
  then show ?thesis
    using mode len last mid mid0 rn l2 lk
    by (simp add: openPayload_def Let_def secretbox_open_def alloc_def)
qed

lemma encode_lite_example:
  "encode [replicate 3840 0 \<mapsto> [0xF8, 0xFF, 0xFE]] ideal_box
     \<lparr>w_ssrc = 5, w_secretKey = replicate 32 1, w_mode = ''xsalsa20_poly1305_lite''\<rparr>
     (replicate 3840 0) 0 0
   = Inr ([0x80, 120, 0, 0, 0, 0, 0, 0, 0, 0, 0, 5]
          @ ideal_box [0xF8, 0xFF, 0xFE] ([0, 0, 0, 0] @ replicate 20 0) (replicate 32 1)
          @ [0, 0, 0, 0])"
  by (simp add: encode_def rtpHeader_def writeUInt16BE_def writeUInt32BE_def secretbox_def
        alloc_def)

theorem encoder_packet_rejected_by_decoder_witness:
  "nonce_binding ideal_box ideal_box_open
   \<and> w_mode \<lparr>w_ssrc = 5, w_secretKey = replicate 32 1, w_mode = ''xsalsa20_poly1305_lite''\<rparr>
       = ''xsalsa20_poly1305_lite''
   \<and> encode [replicate 3840 0 \<mapsto> [0xF8, 0xFF, 0xFE]] ideal_box
        \<lparr>w_ssrc = 5, w_secretKey = replicate 32 1, w_mode = ''xsalsa20_poly1305_lite''\<rparr>
        (replicate 3840 0) 0 0
      = Inr ([0x80, 120, 0, 0, 0, 0, 0, 0, 0, 0, 0, 5]
             @ ideal_box [0xF8, 0xFF, 0xFE] ([0, 0, 0, 0] @ replicate 20 0) (replicate 32 1)
             @ [0, 0, 0, 0])
   \<and> [replicate 3840 0 \<mapsto> [0xF8, 0xFF, 0xFE :: byte]] (replicate 3840 0)
       = Some [0xF8, 0xFF, 0xFE]
   \<and> length [0, 0, 0, 0 :: byte] = 4
   \<and> openPayload ideal_box_open
        \<lparr>w_ssrc = 5, w_secretKey = replicate 32 1, w_mode = ''xsalsa20_poly1305_lite''\<rparr>
        ([0x80, 120, 0, 0, 0, 0, 0, 0, 0, 0, 0, 5]
         @ ideal_box [0xF8, 0xFF, 0xFE] ([0, 0, 0, 0] @ replicate 20 0) (replicate 32 1)
         @ [0, 0, 0, 0]) 0 0
      = Inl DecryptFailed"
  (is "?a \<and> ?b \<and> ?c \<and> ?d \<and> ?t \<and> ?e")
proof -
  have a: ?a by (rule ideal_box_nonce_binding)
  have b: ?b by simp
  have c: ?c by (rule encode_lite_example)
  have d: ?d by simp
  have t: ?t by simp
  have e: ?e
    using encoder_packet_rejected_by_decoder [OF a b c, where P = "[0xF8, 0xFF, 0xFE]" and tail = "[0, 0, 0, 0]"
                and sq = 0 and ts = 0] d
    by (simp add: ideal_box_def)
  from a b c d t e show ?thesis by blast
qed

text \<open>
  C1 as stated fails.  The packet built for sequence 1 carries the tail \<open>00 00 00 01\<close>,
  the big-endian encoding of the sequence; the nonce the decoder derives from it is
  not the nonce the payload was sealed under, and the reference cipher does not return
  the payload.
\<close>

theorem crypto_round_trip_counterexample:
  "encode [replicate 3840 0 \<mapsto> [0xF8, 0xFF, 0xFE]] ideal_box
     \<lparr>w_ssrc = 5, w_secretKey = replicate 32 1, w_mode = ''xsalsa20_poly1305_lite''\<rparr>
     (replicate 3840 0) 1 960
   = Inr ([0x80, 120, 0, 1, 0, 0, 3, 0xC0, 0, 0, 0, 5]
          @ ideal_box [0xF8, 0xFF, 0xFE] ([0, 0, 0, 1] @ replicate 20 0) (replicate 32 1)
          @ [0, 0, 0, 1])
   \<and> writeUInt32BE 1 = Inr [0, 0, 0, 1]
   \<and> receiveNonce
        ([0x80, 120, 0, 1, 0, 0, 3, 0xC0, 0, 0, 0, 5]
         @ ideal_box [0xF8, 0xFF, 0xFE] ([0, 0, 0, 1] @ replicate 20 0) (replicate 32 1)
         @ [0, 0, 0, 1]) [0, 0, 0, 1]
       \<noteq> [0, 0, 0, 1] @ alloc 20
   \<and> openPayload ideal_box_open
        \<lparr>w_ssrc = 5, w_secretKey = replicate 32 1, w_mode = ''xsalsa20_poly1305_lite''\<rparr>
        ([0x80, 120, 0, 1, 0, 0, 3, 0xC0, 0, 0, 0, 5]
         @ ideal_box [0xF8, 0xFF, 0xFE] ([0, 0, 0, 1] @ replicate 20 0) (replicate 32 1)
         @ [0, 0, 0, 1]) 1 960
       \<noteq> Inr [0xF8, 0xFF, 0xFE]"
  by (simp add: encode_def rtpHeader_def writeUInt16BE_def writeUInt32BE_def secretbox_def
        secretbox_open_def openPayload_def receiveNonce_def slice_last_def slice_between_def
        ideal_box_def ideal_box_open_def alloc_def Let_def)

section \<open>Sequence and timestamp counters (C2)\<close>

lemma encode_sequence_overflow:
  "65535 < s \<Longrightarrow> encode opusEncode box w pcm s t = Inl ERR_OUT_OF_RANGE"
  by (simp add: encode_def rtpHeader_def writeUInt16BE_def)

lemma encode_timestamp_overflow:
  "4294967295 < t \<Longrightarrow> encode opusEncode box w pcm s t = Inl ERR_OUT_OF_RANGE"
  by (simp add: encode_def rtpHeader_def writeUInt16BE_def writeUInt32BE_def)

text \<open>
  C2.  The counters are never reduced: \<^verbatim>\<open>this.sequence++\<close> and
  \<^verbatim>\<open>this.timestamp += 960\<close> have no wrap-around.  The frame after sequence \<open>0xFFFF\<close>
  is sent to the worker with sequence 65536, where \<^verbatim>\<open>writeUInt16BE\<close> throws; the same
  happens to a timestamp of \<open>2 ^ 32\<close>.  A batch of two or more frames that starts at
  sequence 65535 therefore never completes, whatever the codec and the cipher do.
\<close>

theorem sequence_overflow_stalls:
  "encode opusEncode box w pcm 65536 t = Inl ERR_OUT_OF_RANGE
   \<and> encode opusEncode box w pcm s 4294967296 = Inl ERR_OUT_OF_RANGE
   \<and> (\<exists>e h1. encodeFrames opusEncode box w pcmData (Suc (Suc n)) i
                 (h\<lparr>sequence := 65535\<rparr>) processedFrames = Inl (e, h1))"
proof -
  have a: "encode opusEncode box w pcm 65536 t = Inl ERR_OUT_OF_RANGE"
    by (rule encode_sequence_overflow) simp
  have b: "encode opusEncode box w pcm s 4294967296 = Inl ERR_OUT_OF_RANGE"
    by (rule encode_timestamp_overflow) simp
  have c: "\<exists>e h1. encodeFrames opusEncode box w pcmData (Suc (Suc n)) i
                 (h\<lparr>sequence := 65535\<rparr>) processedFrames = Inl (e, h1)"
    by (simp add: Let_def encode_sequence_overflow split: sum.splits)
  from a b c show ?thesis by blast
qed

section \<open>The receive path (C3, C4, C5)\<close>

lemma showNat_digit: "n < 10 \<Longrightarrow> showNat n = [digitChar n]"
  by (simp add: showNat.simps)

text \<open>
  C3.  Only the length is checked.  In the plain mode a 74-byte IP-discovery response
  (type \<open>0x0001\<close>, length 70, address \<^verbatim>\<open>1.2.3.4\<close>) is parsed as RTP with sequence 70 and
  its bytes from offset 12 go to the Opus decoder; a 12-byte datagram of RTP version 0
  becomes a silence frame that is stored in the buffer of \<^verbatim>\<open>user_0\<close>; and in the lite
  mode a version 0 datagram with sequence 7 and timestamp 45110 becomes a silence frame
  without decryption.
\<close>

theorem unfiltered_datagrams_decoded:
  "decode opusDecode box_open \<lparr>w_ssrc = 1, w_secretKey = replicate 32 1, w_mode = ''plain''\<rparr>
     ([0, 1, 0, 70, 0, 0, 0, 1, 0x31, 0x2E, 0x32, 0x2E, 0x33, 0x2E, 0x34]
      @ replicate 57 0 @ [0xC3, 0x50])
   = (Decoded \<lparr>frame_pcmData =
                 (case opusDecode ([0x33, 0x2E, 0x34] @ replicate 57 0 @ [0xC3, 0x50]) of
                    Some decoded \<Rightarrow> decoded | None \<Rightarrow> replicate 3840 0),
               frame_sequence = 70, frame_timestamp = 1\<rparr>,
      [[0x33, 0x2E, 0x34] @ replicate 57 0 @ [0xC3, 0x50]])
   \<and> audioBufferManager
       (onUdpMessage opusDecode box_open now (replicate 12 0)
          (h\<lparr>decodingWorker :=
                Some \<lparr>w_ssrc = 1, w_secretKey = replicate 32 1, w_mode = ''plain''\<rparr>,
              audioBufferManager := Some m, transcriptionEnabled := True\<rparr>))
     = Some (addAudioChunk now ''user_0'' (replicate 3840 0) m)
   \<and> decode opusDecode box_open
       \<lparr>w_ssrc = 1, w_secretKey = replicate 32 1, w_mode = ''xsalsa20_poly1305_lite''\<rparr>
       [0, 0, 0, 7, 0, 0, 0xB0, 0x36, 0, 0, 0, 0, 0, 0, 0, 0]
     = (Decoded \<lparr>frame_pcmData = replicate 3840 0, frame_sequence = 7,
                 frame_timestamp = 45110\<rparr>, [])"
  (is "?a \<and> ?b \<and> ?c")
proof -
  have a: ?a
    by (simp add: decode_def readUInt16BE_def readUInt32BE_def openPayload_def slice_from_def
          extractOpusFromRTP_def alloc_def split: option.splits)
  have b: ?b
    by (simp add: onUdpMessage_def decode_def readUInt16BE_def readUInt32BE_def openPayload_def
          slice_from_def extractOpusFromRTP_def alloc_def showNat_digit digitChar_def Let_def
          boundUser_def packetSsrc_def)
  have c: ?c
    by (simp add: decode_def readUInt16BE_def readUInt32BE_def openPayload_def slice_between_def
          slice_last_def extractOpusFromRTP_def alloc_def Let_def)
  from a b c show ?thesis by blast
qed

lemma boundUser_audioReceived:
  "boundUser (h\<lparr>audioReceived := x\<rparr>) packet = boundUser h packet"
  by (simp add: boundUser_def split: option.splits)

text \<open>
  C4, as amended.  A decoded packet with PCM whose SSRC has no user binding is stored
  under the key \<^verbatim>\<open>user_\<close> followed by the packet's RTP sequence number modulo 1000; the
  placeholder is not derived from the SSRC.  No voice message moves what the buffer
  manager holds: after an op 5 speaking event the chunks stored under the placeholder
  are still there, so the utterance is not re-parented.
\<close>

theorem placeholder_from_sequence:
  assumes "decodingWorker h = Some w"
    and "fst (decode opusDecode box_open w packet) = Decoded decoded"
    and "audioBufferManager h = Some m"
    and "transcriptionEnabled h"
    and "frame_pcmData decoded \<noteq> []"
    and "boundUser h packet = None"
  shows "audioBufferManager (onUdpMessage opusDecode box_open now packet h)
           = Some (addAudioChunk now (''user_'' @ showNat (frame_sequence decoded mod 1000))
                     (frame_pcmData decoded) m)
         \<and> audioBufferManager
             (handleVoiceMessage message (onUdpMessage opusDecode box_open now packet h))
           = audioBufferManager (onUdpMessage opusDecode box_open now packet h)"
proof -
  have a: "audioBufferManager (onUdpMessage opusDecode box_open now packet h)
           = Some (addAudioChunk now (''user_'' @ showNat (frame_sequence decoded mod 1000))
                     (frame_pcmData decoded) m)"
    using assms by (simp add: onUdpMessage_def Let_def boundUser_audioReceived)
  have b: "audioBufferManager (handleVoiceMessage message g) = audioBufferManager g" for g
    by (cases message) (auto simp: handleVoiceMessage_def split: option.splits)
  from a b show ?thesis by simp
qed

lemma decode_header_only:
  "decode opusDecode box_open \<lparr>w_ssrc = 3, w_secretKey = replicate 32 1, w_mode = ''plain''\<rparr>
     [0x80, 120, 0, sq, 0, 0, 0, 9, 0, 0, 0, 5]
   = (Decoded \<lparr>frame_pcmData = replicate 3840 0, frame_sequence = unat sq,
               frame_timestamp = 9\<rparr>, [])"
  by (simp add: decode_def readUInt16BE_def readUInt32BE_def openPayload_def slice_from_def
        extractOpusFromRTP_def alloc_def)

lemma packetSsrc_example: "packetSsrc [0x80, 120, 0, sq, 0, 0, 0, 9, 0, 0, 0, 5] = Some 5"
  by (simp add: packetSsrc_def readUInt32BE_def)

theorem placeholder_from_sequence_witness:
  "decodingWorker (newHandler True\<lparr>decodingWorker :=
       Some \<lparr>w_ssrc = 3, w_secretKey = replicate 32 1, w_mode = ''plain''\<rparr>\<rparr>)
     = Some \<lparr>w_ssrc = 3, w_secretKey = replicate 32 1, w_mode = ''plain''\<rparr>
   \<and> fst (decode Map.empty ideal_box_open
            \<lparr>w_ssrc = 3, w_secretKey = replicate 32 1, w_mode = ''plain''\<rparr>
            [0x80, 120, 0, 2, 0, 0, 0, 9, 0, 0, 0, 5])
       = Decoded \<lparr>frame_pcmData = replicate 3840 0, frame_sequence = 2, frame_timestamp = 9\<rparr>
   \<and> audioBufferManager (newHandler True\<lparr>decodingWorker :=
       Some \<lparr>w_ssrc = 3, w_secretKey = replicate 32 1, w_mode = ''plain''\<rparr>\<rparr>)
     = Some (newAudioBufferManager 2000 10000)
   \<and> transcriptionEnabled (newHandler True\<lparr>decodingWorker :=
       Some \<lparr>w_ssrc = 3, w_secretKey = replicate 32 1, w_mode = ''plain''\<rparr>\<rparr>)
   \<and> frame_pcmData \<lparr>frame_pcmData = replicate 3840 0, frame_sequence = 2, frame_timestamp = 9\<rparr>
       \<noteq> []
   \<and> boundUser (newHandler True\<lparr>decodingWorker :=
         Some \<lparr>w_ssrc = 3, w_secretKey = replicate 32 1, w_mode = ''plain''\<rparr>\<rparr>)
        [0x80, 120, 0, 2, 0, 0, 0, 9, 0, 0, 0, 5] = None
   \<and> audioBufferManager
        (onUdpMessage Map.empty ideal_box_open 20 [0x80, 120, 0, 2, 0, 0, 0, 9, 0, 0, 0, 5]
           (newHandler True\<lparr>decodingWorker :=
              Some \<lparr>w_ssrc = 3, w_secretKey = replicate 32 1, w_mode = ''plain''\<rparr>\<rparr>))
       = Some (addAudioChunk 20 ''user_2'' (replicate 3840 0) (newAudioBufferManager 2000 10000))"
  (is "?a \<and> ?b \<and> ?c \<and> ?d \<and> ?e \<and> ?u \<and> ?f")
proof -
  have a: ?a and c: ?c and d: ?d by (simp_all add: newHandler_def)
  have b: ?b by (simp add: decode_header_only)
  have e: ?e by simp
  have u: ?u by (simp add: boundUser_def packetSsrc_example newHandler_def)
  have f: ?f
    using placeholder_from_sequence [OF a b c d e u, of 20 HeartbeatAck, THEN conjunct1]
    by (simp add: showNat_digit digitChar_def)
  from a b c d e u f show ?thesis by blast
qed

text \<open>
  C4 as stated fails.  Two packets with the same unbound SSRC 5 and the sequence
  numbers 1 and 2 are stored under two different keys, \<^verbatim>\<open>user_1\<close> and \<^verbatim>\<open>user_2\<close>; after an
  op 5 message that binds SSRC 5 to user \<^verbatim>\<open>42\<close> they are still there and nothing is
  stored for \<^verbatim>\<open>42\<close>.
\<close>

theorem placeholder_from_ssrc_counterexample:
  "speakerSlot
     (handleVoiceMessage (Speaking (Some ''42'') (Some 5) (Some 1))
       (onUdpMessage Map.empty ideal_box_open 20 [0x80, 120, 0, 2, 0, 0, 0, 9, 0, 0, 0, 5]
         (onUdpMessage Map.empty ideal_box_open 0 [0x80, 120, 0, 1, 0, 0, 0, 9, 0, 0, 0, 5]
           (newHandler True\<lparr>decodingWorker :=
              Some \<lparr>w_ssrc = 3, w_secretKey = replicate 32 1, w_mode = ''plain''\<rparr>\<rparr>))))
     ''user_1''
   = [\<lparr>chunk_pcmData = replicate 3840 0, chunk_timestamp = 0, chunk_userId = ''user_1''\<rparr>]
  \<and> speakerSlot
     (handleVoiceMessage (Speaking (Some ''42'') (Some 5) (Some 1))
       (onUdpMessage Map.empty ideal_box_open 20 [0x80, 120, 0, 2, 0, 0, 0, 9, 0, 0, 0, 5]
         (onUdpMessage Map.empty ideal_box_open 0 [0x80, 120, 0, 1, 0, 0, 0, 9, 0, 0, 0, 5]
           (newHandler True\<lparr>decodingWorker :=
              Some \<lparr>w_ssrc = 3, w_secretKey = replicate 32 1, w_mode = ''plain''\<rparr>\<rparr>))))
     ''user_2''
   = [\<lparr>chunk_pcmData = replicate 3840 0, chunk_timestamp = 20, chunk_userId = ''user_2''\<rparr>]
  \<and> speakerSlot
     (handleVoiceMessage (Speaking (Some ''42'') (Some 5) (Some 1))
       (onUdpMessage Map.empty ideal_box_open 20 [0x80, 120, 0, 2, 0, 0, 0, 9, 0, 0, 0, 5]
         (onUdpMessage Map.empty ideal_box_open 0 [0x80, 120, 0, 1, 0, 0, 0, 9, 0, 0, 0, 5]
           (newHandler True\<lparr>decodingWorker :=
              Some \<lparr>w_ssrc = 3, w_secretKey = replicate 32 1, w_mode = ''plain''\<rparr>\<rparr>))))
     ''42''
   = []"
  by (simp add: speakerSlot_def handleVoiceMessage_def onUdpMessage_def decode_header_only
        boundUser_def packetSsrc_example
        newHandler_def newAudioBufferManager_def addAudioChunk_def estimate_one double_20_ms
        slot_def showNat_digit digitChar_def Let_def)

text \<open>
  C5, as amended.  When the payload of a packet (the decrypted plaintext in the lite
  mode, the bytes after the header otherwise) is empty after extension stripping, as a
  plaintext of 0 bytes is, the worker replies with exactly 3,840 zero bytes of PCM under
  the packet's sequence and timestamp, and the Opus decoder is not called.
\<close>

theorem decode_empty_payload_silence:
  assumes "12 \<le> length rtpPacket"
    and "readUInt16BE rtpPacket 2 = Inr sq"
    and "readUInt32BE rtpPacket 4 = Inr ts"
    and "openPayload box_open w rtpPacket sq ts = Inr opusData"
    and "extractOpusFromRTP opusData = []"
  shows "decode opusDecode box_open w rtpPacket =
           (Decoded \<lparr>frame_pcmData = replicate 3840 0, frame_sequence = sq,
                     frame_timestamp = ts\<rparr>, [])"
  using assms by (simp add: decode_def alloc_def)

theorem decode_empty_payload_silence_witness:
  "12 \<le> length [0x80, 120, 0, 5, 0, 0, 0, 9, 0, 0, 0, 1 :: byte]
   \<and> readUInt16BE [0x80, 120, 0, 5, 0, 0, 0, 9, 0, 0, 0, 1] 2 = Inr 5
   \<and> readUInt32BE [0x80, 120, 0, 5, 0, 0, 0, 9, 0, 0, 0, 1] 4 = Inr 9
   \<and> openPayload ideal_box_open \<lparr>w_ssrc = 1, w_secretKey = replicate 32 1, w_mode = ''plain''\<rparr>
        [0x80, 120, 0, 5, 0, 0, 0, 9, 0, 0, 0, 1] 5 9 = Inr []
   \<and> extractOpusFromRTP [] = []
   \<and> decode Map.empty ideal_box_open
        \<lparr>w_ssrc = 1, w_secretKey = replicate 32 1, w_mode = ''plain''\<rparr>
        [0x80, 120, 0, 5, 0, 0, 0, 9, 0, 0, 0, 1]
      = (Decoded \<lparr>frame_pcmData = replicate 3840 0, frame_sequence = 5,
                  frame_timestamp = 9\<rparr>, [])"
proof -
  have a: "12 \<le> length [0x80, 120, 0, 5, 0, 0, 0, 9, 0, 0, 0, 1 :: byte]" by simp
  have b: "readUInt16BE [0x80, 120, 0, 5, 0, 0, 0, 9, 0, 0, 0, 1] 2 = Inr 5"
    by (simp add: readUInt16BE_def)
  have c: "readUInt32BE [0x80, 120, 0, 5, 0, 0, 0, 9, 0, 0, 0, 1] 4 = Inr 9"
    by (simp add: readUInt32BE_def)
  have d: "openPayload ideal_box_open
             \<lparr>w_ssrc = 1, w_secretKey = replicate 32 1, w_mode = ''plain''\<rparr>
             [0x80, 120, 0, 5, 0, 0, 0, 9, 0, 0, 0, 1] 5 9 = Inr []"
    by (simp add: openPayload_def slice_from_def)
  have e: "extractOpusFromRTP [] = []" by (simp add: extractOpusFromRTP_def)
  from a b c d e decode_empty_payload_silence [OF a b c d e, of Map.empty]
  show ?thesis by blast
qed

text \<open>
  C5 as stated fails.  A one-byte plaintext \<open>0xF8\<close> is handed to the Opus decoder, in
  the plain mode and, after a successful open, in the lite mode.
\<close>

theorem decode_short_plaintext_counterexample:
  "snd (decode Map.empty ideal_box_open
          \<lparr>w_ssrc = 1, w_secretKey = replicate 32 1, w_mode = ''plain''\<rparr>
          [0x80, 120, 0, 5, 0, 0, 0, 9, 0, 0, 0, 1, 0xF8]) = [[0xF8]]
   \<and> snd (decode Map.empty ideal_box_open
          \<lparr>w_ssrc = 1, w_secretKey = replicate 32 1, w_mode = ''xsalsa20_poly1305_lite''\<rparr>
          ([0x80, 120, 0, 5, 0, 0, 0, 9, 0, 0, 0, 1]
           @ ideal_box [0xF8]
               ([0x80, 120, 0, 5, 0, 0, 0, 9, 0, 0, 0, 1] @ [0, 0, 0, 5] @ replicate 8 0)
               (replicate 32 1)
           @ [0, 0, 0, 5])) = [[0xF8]]"
  by (simp add: decode_def readUInt16BE_def readUInt32BE_def openPayload_def slice_from_def
        slice_between_def slice_last_def receiveNonce_def secretbox_open_def
        ideal_box_def ideal_box_open_def extractOpusFromRTP_def alloc_def Let_def)

section \<open>The speaking flag around a transmission (C8)\<close>




















end
